theory Spec2Isabelle
  imports Main
begin

section \<open>Data model of \<open>abcross/common.py\<close>\<close>

text \<open>
  Python strings are modelled as \<^typ>\<open>string\<close>: one \<^typ>\<open>char\<close> stands for one code point
  below 256. Exceptions are values of \<open>py_error\<close>; a function that may raise returns a sum
  whose left injection is the exception.
\<close>

datatype py_error = ValueError | IndexError | RuntimeError | OSError string

text \<open>The enumeration \<open>Architecture\<close>, one constructor per member, in the order of the source.\<close>

datatype architecture =
    AMD64 | ARM64 | LOONGSON3 | POWERPC | PPC64EL | RISCV64 | MIPS64R6EL
  | ARMV4 | ARMV6HF | ARMV7HF | M68K | PPC64 | I486

text \<open>The member's \<open>.value\<close>.\<close>

fun arch_value :: "architecture \<Rightarrow> string" where
  "arch_value AMD64 = ''amd64''"
| "arch_value ARM64 = ''arm64''"
| "arch_value LOONGSON3 = ''loongson3''"
| "arch_value POWERPC = ''powerpc''"
| "arch_value PPC64EL = ''ppc64el''"
| "arch_value RISCV64 = ''riscv64''"
| "arch_value MIPS64R6EL = ''mips64r6el''"
| "arch_value ARMV4 = ''armv4''"
| "arch_value ARMV6HF = ''armv6hf''"
| "arch_value ARMV7HF = ''armv7hf''"
| "arch_value M68K = ''m68k''"
| "arch_value PPC64 = ''ppc64''"
| "arch_value I486 = ''i486''"

text \<open>The members the source marks \<open># retro\<close>, and \<open>I486\<close>, which no host detection returns either.\<close>

definition retro_arches :: "architecture list" where
  "retro_arches = [ARMV4, ARMV6HF, ARMV7HF, M68K, PPC64, I486]"

subsection \<open>\<open>qemu_arch\<close>: a \<open>match\<close> statement with a raising default\<close>

text \<open>
  The \<open>match self\<close> of \<open>qemu_arch\<close> is kept as the ordered list of its \<open>case\<close> clauses: the
  patterns of a clause (an or-pattern has several) and the string it returns. The clauses are
  tried in order; \<open>case _: raise ValueError\<close> is what remains when none applies.
\<close>

definition qemu_arch_cases :: "(architecture list \<times> string) list" where
  "qemu_arch_cases =
    [([AMD64], ''amd64''),
     ([ARM64], ''aarch64''),
     ([LOONGSON3], ''mips64el''),
     ([POWERPC], ''ppc''),
     ([PPC64EL], ''ppc64le''),
     ([RISCV64], ''riscv64''),
     ([MIPS64R6EL], ''mips64el''),
     ([ARMV4, ARMV6HF, ARMV7HF], ''arm''),
     ([M68K], ''m68k''),
     ([PPC64], ''ppc64''),
     ([I486], ''i386'')]"

fun match_cases :: "(architecture list \<times> string) list \<Rightarrow> architecture \<Rightarrow> py_error + string" where
  "match_cases [] self = Inl ValueError"
| "match_cases ((pats, r) # cs) self =
     (if self \<in> set pats then Inr r else match_cases cs self)"

definition qemu_arch :: "architecture \<Rightarrow> py_error + string" where
  "qemu_arch self = match_cases qemu_arch_cases self"

text \<open>\<open>f"qemu-{self.qemu_arch()}-static"\<close>; an exception of \<open>qemu_arch\<close> propagates.\<close>

definition qemu_bin :: "architecture \<Rightarrow> py_error + string" where
  "qemu_bin self =
     (case qemu_arch self of
        Inl e \<Rightarrow> Inl e
      | Inr q \<Rightarrow> Inr (''qemu-'' @ q @ ''-static''))"

subsection \<open>\<open>match_current_arch\<close>\<close>

text \<open>The argument is the string \<open>platform.machine()\<close> returns on the host.\<close>

definition match_current_arch :: "string \<Rightarrow> architecture option" where
  "match_current_arch machine =
     (if machine = ''x86_64'' then Some AMD64
      else if machine = ''aarch64'' then Some ARM64
      else if machine = ''riscv64'' then Some RISCV64
      else if machine = ''ppc'' then Some POWERPC
      else if machine = ''ppc64le'' then Some PPC64EL
      else if machine = ''mips64'' then None
      else None)"

subsection \<open>Paths of \<open>pathlib\<close>\<close>

text \<open>
  A \<open>PosixPath\<close> object is its root (\<open>''''\<close>, \<open>''/''\<close> or \<open>''//''\<close>) and its components.
  The constructor splits the text at \<open>/\<close> and drops empty components and \<open>.\<close>; exactly two
  leading slashes are kept as the root \<open>//\<close>, any other number of them is the root \<open>/\<close>.
\<close>

datatype posix_path = Path (root: string) (tail: "string list")

fun split_sep :: "string \<Rightarrow> string list" where
  "split_sep [] = [[]]"
| "split_sep (c # cs) =
     (if c = CHR ''/'' then [] # split_sep cs
      else (case split_sep cs of [] \<Rightarrow> [[c]] | p # ps \<Rightarrow> (c # p) # ps))"

definition splitroot :: "string \<Rightarrow> string \<times> string" where
  "splitroot part =
     (if part \<noteq> [] \<and> hd part = CHR ''/'' then
        (let stripped_part = dropWhile (\<lambda>c. c = CHR ''/'') part
         in if length part - length stripped_part = 2 then (''//'', stripped_part)
            else (''/'', stripped_part))
      else ('''', part))"

definition PosixPath :: "string \<Rightarrow> posix_path" where
  "PosixPath s =
     (case splitroot s of
        (r, rel) \<Rightarrow> Path r (filter (\<lambda>x. x \<noteq> [] \<and> x \<noteq> ''.'') (split_sep rel)))"

fun join_sep :: "string list \<Rightarrow> string" where
  "join_sep [] = []"
| "join_sep [x] = x"
| "join_sep (x # y # ys) = x @ ''/'' @ join_sep (y # ys)"

text \<open>\<open>str(path)\<close> and \<open>path.name\<close>.\<close>

definition path_str :: "posix_path \<Rightarrow> string" where
  "path_str p =
     (if root p = [] \<and> tail p = [] then ''.'' else root p @ join_sep (tail p))"

definition path_name :: "posix_path \<Rightarrow> string" where
  "path_name p = (if tail p = [] then [] else last (tail p))"

subsection \<open>The host: what the functions read and call\<close>

text \<open>
  \<open>subprocess.run\<close> returns a \<open>CompletedProcess\<close>; the streams are \<open>None\<close> when they were not
  captured.
\<close>

record completed_process =
  stdout :: "string option"
  stderr :: "string option"
  returncode :: int

text \<open>
  The operating system is a parameter of the model:
  \<^item> \<open>geteuid\<close>: the value of \<open>os.geteuid()\<close>;
  \<^item> \<open>open_read\<close>: \<open>open(name, 'r')\<close> followed by reading the whole file, which gives the decoded
    text with every line ending translated to a newline, or the exception raised;
  \<^item> \<open>resolve\<close>: \<open>Path.resolve()\<close>, the path with its symbolic links followed, or the exception
    raised (a symbolic-link loop, an embedded null);
  \<^item> \<open>run\<close>: \<open>subprocess.run(args, capture_output=c, text=t)\<close>, or the exception raised when
    the child cannot be launched.
\<close>

record host =
  geteuid :: nat
  open_read :: "string \<Rightarrow> py_error + string"
  resolve :: "posix_path \<Rightarrow> py_error + posix_path"
  run :: "string list \<Rightarrow> bool \<Rightarrow> bool \<Rightarrow> py_error + completed_process"

text \<open>
  What a call does besides returning: the log records it emits and the processes it launches,
  in order. A log message keeps the structure of its f-string: literal text and the values
  formatted into it.
\<close>

datatype piece = Lit string | FmtArch architecture | FmtStr string | FmtList "string list"

datatype event =
    Critical "piece list"
  | Info "piece list"
  | Launch "string list" bool bool

subsection \<open>Reading the registration file\<close>

text \<open>\<open>readlines()\<close>: the text cut after every newline, the newline kept.\<close>

abbreviation NL :: char where
  "NL \<equiv> CHR 0x0A"

fun readlines :: "string \<Rightarrow> string list" where
  "readlines [] = []"
| "readlines (c # cs) =
     (if c = NL then [c] # readlines cs
      else (case readlines cs of [] \<Rightarrow> [[c]] | l # ls \<Rightarrow> (c # l) # ls))"

text \<open>
  \<open>str.strip()\<close> without argument removes leading and trailing whitespace; below 256 the
  whitespace code points are 9 to 13, 28 to 32, 133 and 160.
\<close>

definition isspace :: "char \<Rightarrow> bool" where
  "isspace c =
     (let n = (of_char c :: nat)
      in (9 \<le> n \<and> n \<le> 13) \<or> (28 \<le> n \<and> n \<le> 32) \<or> n = 133 \<or> n = 160)"

definition strip :: "string \<Rightarrow> string" where
  "strip s = rev (dropWhile isspace (rev (dropWhile isspace s)))"

text \<open>
  \<open>re.match(f"interpreter (?P<path>.+{base_name})", line)\<close>. The match is anchored at the start
  of the line. \<open>.+\<close> is greedy and \<open>.\<close> matches every character but a newline: the engine
  first lets \<open>.+\<close> take the whole run of characters up to the first newline and gives back one
  character at a time, down to one, until \<open>base_name\<close> follows. The group \<open>path\<close> is what
  \<open>.+\<close> took, followed by \<open>base_name\<close>. Every \<open>base_name\<close> of this program consists of
  letters, digits and \<open>-\<close>, which stand for themselves in a pattern.
\<close>

primrec startswith :: "string \<Rightarrow> string \<Rightarrow> bool" where
  "startswith s [] = True"
| "startswith s (p # ps) = (case s of [] \<Rightarrow> False | c # cs \<Rightarrow> c = p \<and> startswith cs ps)"

fun backtrack :: "nat \<Rightarrow> string \<Rightarrow> string \<Rightarrow> string option" where
  "backtrack 0 base_name s = None"
| "backtrack (Suc k) base_name s =
     (if startswith (drop (Suc k) s) base_name then Some (take (Suc k) s @ base_name)
      else backtrack k base_name s)"

definition match_interp :: "string \<Rightarrow> string \<Rightarrow> string option" where
  "match_interp base_name line =
     (if startswith line ''interpreter '' then
        (let s = drop (length ''interpreter '') line
         in backtrack (length (takeWhile (\<lambda>c. c \<noteq> NL) s)) base_name s)
      else None)"

subsection \<open>\<open>have_qemu\<close>\<close>

definition binfmt_reg_name :: "architecture \<Rightarrow> py_error + string" where
  "binfmt_reg_name self =
     (case qemu_arch self of
        Inl e \<Rightarrow> Inl e
      | Inr q \<Rightarrow> Inr (''/proc/sys/fs/binfmt_misc/qemu-'' @ q))"

text \<open>
  The body after the file has been read. Indexing the list of lines at 0 and at 1 raises
  \<open>IndexError\<close> when the list is too short.
\<close>

definition check_registration ::
  "host \<Rightarrow> architecture \<Rightarrow> string \<Rightarrow> string list \<Rightarrow> event list \<times> (py_error + string option)" where
  "check_registration h self base_name binfmt_reg_content =
     (case binfmt_reg_content of
        [] \<Rightarrow> ([], Inl IndexError)
      | line0 # later \<Rightarrow>
          if strip line0 \<noteq> ''enabled'' then
            ([Critical [Lit ''Architecture '', FmtArch self, Lit '' is not enabled with binfmt''],
              Critical [Lit ''Content of binfmt descriptor:'', Lit [NL], FmtList binfmt_reg_content]],
             Inr None)
          else
            (case later of
               [] \<Rightarrow> ([], Inl IndexError)
             | line1 # _ \<Rightarrow>
                 (case match_interp base_name line1 of
                    None \<Rightarrow>
                      ([Critical [Lit ''Architecture '', FmtArch self,
                                  Lit '' does not have valid interpreter'']],
                       Inr None)
                  | Some path_interp \<Rightarrow>
                      (case resolve h (PosixPath path_interp) of
                         Inl e \<Rightarrow> ([], Inl e)
                       | Inr resolved \<Rightarrow>
                           if path_name resolved \<noteq> base_name then
                             ([Critical [Lit ''Architecture '', FmtArch self,
                                         Lit '' has incorrect interpreter '', FmtStr path_interp,
                                         Lit '' instead of '', FmtStr base_name]],
                              Inr None)
                           else ([], Inr (Some path_interp))))))"

text \<open>
  \<open>have_qemu\<close>: only an \<open>OSError\<close> of the read is caught and turned into \<open>None\<close>; any other
  exception leaves the function.
\<close>

definition have_qemu :: "host \<Rightarrow> architecture \<Rightarrow> event list \<times> (py_error + string option)" where
  "have_qemu h self =
     (case qemu_bin self of
        Inl e \<Rightarrow> ([], Inl e)
      | Inr base_name \<Rightarrow>
          (case binfmt_reg_name self of
             Inl e \<Rightarrow> ([], Inl e)
           | Inr reg_name \<Rightarrow>
               (case open_read h reg_name of
                  Inl (OSError strerror) \<Rightarrow>
                    ([Critical [Lit ''Architecture '', FmtArch self,
                                Lit '' is not registered with binfmt: '', FmtStr strerror]],
                     Inr None)
                | Inl e \<Rightarrow> ([], Inl e)
                | Inr body \<Rightarrow> check_registration h self base_name (readlines body))))"

subsection \<open>\<open>standard_sysroot\<close>\<close>

definition standard_sysroot :: "architecture \<Rightarrow> posix_path" where
  "standard_sysroot self = PosixPath (''/var/ab/cross-root/'' @ arch_value self)"

subsection \<open>Running commands\<close>

text \<open>
  Both functions return the triple \<open>(result.stdout, result.stderr, result.returncode)\<close>; an
  exception of the launcher propagates.
\<close>

type_synonym call_result = "py_error + (string option \<times> string option \<times> int)"

definition privileged_call :: "host \<Rightarrow> string list \<Rightarrow> bool \<Rightarrow> event list \<times> call_result" where
  "privileged_call h argv interactive =
     (let need_sudo = (geteuid h \<noteq> 0);
          call_args = (if need_sudo then [''sudo''] else []) @ argv;
          logged = (if need_sudo then [Info [Lit ''!!! About to run '', FmtList call_args]] else [])
      in (logged @ [Launch call_args (\<not> interactive) True],
          (case run h call_args (\<not> interactive) True of
             Inl e \<Rightarrow> Inl e
           | Inr result \<Rightarrow> Inr (stdout result, stderr result, returncode result))))"

definition regular_call :: "host \<Rightarrow> string list \<Rightarrow> bool \<Rightarrow> event list \<times> call_result" where
  "regular_call h argv interactive =
     ([Launch argv (\<not> interactive) True],
      (case run h argv (\<not> interactive) True of
         Inl e \<Rightarrow> Inl e
       | Inr result \<Rightarrow> Inr (stdout result, stderr result, returncode result)))"

text \<open>The launches among the events of a call.\<close>

fun is_launch :: "event \<Rightarrow> bool" where
  "is_launch (Launch args capture_output as_text) = True"
| "is_launch e = False"

subsection \<open>Example hosts\<close>

text \<open>
  A host for the examples below: the effective user id, one registration file given by its
  lines (every other file is missing), the symbolic links as pairs of a path and the path it
  resolves to (every other path resolves to itself), and a child process that exits with
  status 2.
\<close>

definition file_text :: "string list \<Rightarrow> string" where
  "file_text ls = concat (map (\<lambda>l. l @ [NL]) ls)"

definition example_child :: "string list \<Rightarrow> bool \<Rightarrow> bool \<Rightarrow> py_error + completed_process" where
  "example_child args capture_output as_text =
     Inr \<lparr> stdout = (if capture_output then Some ''out'' else None),
           stderr = (if capture_output then Some ''err'' else None),
           returncode = 2 \<rparr>"

definition example_host :: "nat \<Rightarrow> string \<Rightarrow> string list \<Rightarrow> (string \<times> string) list \<Rightarrow> host" where
  "example_host uid reg_name reg_lines symlinks =
     \<lparr> geteuid = uid,
       open_read = (\<lambda>name. if name = reg_name then Inr (file_text reg_lines)
                            else Inl (OSError ''No such file or directory'')),
       resolve = (\<lambda>p. case map_of symlinks (path_str p) of
                         Some target \<Rightarrow> Inr (PosixPath target)
                       | None \<Rightarrow> Inr p),
       run = example_child \<rparr>"

abbreviation arm64_reg :: string where
  "arm64_reg \<equiv> ''/proc/sys/fs/binfmt_misc/qemu-aarch64''"

text \<open>The registration of the specification's example, as the kernel prints it.\<close>

definition host_registered :: host where
  "host_registered =
     example_host 1000 arm64_reg
       [''enabled'', ''interpreter /usr/bin/qemu-aarch64-static'', ''flags: F''] []"

text \<open>The registered interpreter is a symbolic link to the binary.\<close>

definition host_symlink :: host where
  "host_symlink =
     example_host 1000 arm64_reg
       [''enabled'', ''interpreter /usr/local/bin/qemu-aarch64-static'', ''flags: F'']
       [(''/usr/local/bin/qemu-aarch64-static'', ''/usr/bin/qemu-aarch64-static'')]"



definition host_disabled :: host where
  "host_disabled =
     example_host 1000 arm64_reg
       [''disabled'', ''interpreter /usr/bin/qemu-aarch64-static'', ''flags: F''] []"


text \<open>The first line is \<open>enabled\<close> after a blank.\<close>

definition host_padded :: host where
  "host_padded =
     example_host 1000 arm64_reg
       ['' enabled'', ''interpreter /usr/bin/qemu-aarch64-static'', ''flags: F''] []"

text \<open>Registration files of no line and of one line.\<close>

definition host_empty_file :: host where
  "host_empty_file = example_host 1000 arm64_reg [] []"

definition host_one_line :: host where
  "host_one_line = example_host 1000 arm64_reg [''enabled''] []"

definition host_root :: host where
  "host_root = example_host 0 arm64_reg [] []"



text \<open>
  A launcher that shows what it was given: the completed process has the number of the
  arguments as its exit status and, when the output is captured, the arguments themselves,
  one after the other, as its standard output.
\<close>

definition probe_child :: "string list \<Rightarrow> bool \<Rightarrow> bool \<Rightarrow> py_error + completed_process" where
  "probe_child args capture_output as_text =
     Inr \<lparr> stdout = (if capture_output then Some (concat args) else None),
           stderr = (if capture_output then Some [] else None),
           returncode = int (length args) \<rparr>"

definition host_probe :: "nat \<Rightarrow> host" where
  "host_probe uid = (example_host uid arm64_reg [] []) \<lparr> run := probe_child \<rparr>"

section \<open>The architecture table\<close>

lemma qemu_arch_simps:
  "qemu_arch AMD64 = Inr ''amd64''"
  "qemu_arch ARM64 = Inr ''aarch64''"
  "qemu_arch LOONGSON3 = Inr ''mips64el''"
  "qemu_arch POWERPC = Inr ''ppc''"
  "qemu_arch PPC64EL = Inr ''ppc64le''"
  "qemu_arch RISCV64 = Inr ''riscv64''"
  "qemu_arch MIPS64R6EL = Inr ''mips64el''"
  "qemu_arch ARMV4 = Inr ''arm''"
  "qemu_arch ARMV6HF = Inr ''arm''"
  "qemu_arch ARMV7HF = Inr ''arm''"
  "qemu_arch M68K = Inr ''m68k''"
  "qemu_arch PPC64 = Inr ''ppc64''"
  "qemu_arch I486 = Inr ''i386''"
  by (simp_all add: qemu_arch_def qemu_arch_cases_def)

lemma qemu_arch_returns: "\<exists>q. qemu_arch self = Inr q"
  by (cases self) (simp_all add: qemu_arch_simps)

text \<open>
  C7. For every member of the enumeration \<open>qemu_arch\<close> returns a string: the default clause
  that raises \<open>ValueError\<close> is never reached. Exactly one clause of the \<open>match\<close> applies to a
  member, and a member is written in the patterns exactly once.
\<close>

theorem qemu_arch_total:
  "(\<exists>q. qemu_arch self = Inr q) \<and> qemu_arch self \<noteq> Inl ValueError
   \<and> length (filter (\<lambda>(pats, r). self \<in> set pats) qemu_arch_cases) = 1
   \<and> count_list (concat (map fst qemu_arch_cases)) self = 1"
  by (cases self) (simp_all add: qemu_arch_simps qemu_arch_cases_def)

section \<open>The pattern of the interpreter line\<close>









section \<open>The availability check\<close>

lemma qemu_bin_returns: "\<exists>b. qemu_bin self = Inr b"
  using qemu_arch_returns[of self] by (auto simp: qemu_bin_def)

lemma binfmt_reg_name_returns: "\<exists>n. binfmt_reg_name self = Inr n"
  using qemu_arch_returns[of self] by (auto simp: binfmt_reg_name_def)

lemma have_qemu_read:
  assumes "qemu_bin self = Inr base_name" "binfmt_reg_name self = Inr reg_name"
    "open_read h reg_name = Inr body"
  shows "have_qemu h self = check_registration h self base_name (readlines body)"
  using assms by (simp add: have_qemu_def)

text \<open>
  C1, as amended. When the availability check succeeds (the registration file is read, its
  first line stripped of whitespace is \<open>enabled\<close>, the second line matches the pattern, and
  the name of the resolved path is the expected file name), the value returned is the path
  exactly as the registration line gives it, the group \<open>path\<close> of the match. The resolved path
  is used for the comparison of names only. No log record is emitted.
\<close>

theorem have_qemu_returns_captured_path:
  assumes "qemu_bin self = Inr base_name" "binfmt_reg_name self = Inr reg_name"
    and "open_read h reg_name = Inr body"
    and "readlines body = line0 # line1 # rest"
    and "strip line0 = ''enabled''"
    and "match_interp base_name line1 = Some path_interp"
    and "resolve h (PosixPath path_interp) = Inr resolved"
    and "path_name resolved = base_name"
  shows "have_qemu h self = ([], Inr (Some path_interp))"
  using assms by (simp add: have_qemu_read check_registration_def)

text \<open>Conversely, a path is returned only when every step of the check has passed.\<close>

lemma have_qemu_Some_only_if:
  assumes "snd (have_qemu h self) = Inr (Some p)"
  shows "\<exists>base_name reg_name body line0 line1 rest resolved.
           qemu_bin self = Inr base_name \<and> binfmt_reg_name self = Inr reg_name
         \<and> open_read h reg_name = Inr body \<and> readlines body = line0 # line1 # rest
         \<and> strip line0 = ''enabled'' \<and> match_interp base_name line1 = Some p
         \<and> resolve h (PosixPath p) = Inr resolved \<and> path_name resolved = base_name"
  using assms
  by (auto simp: have_qemu_def check_registration_def
      split: sum.splits py_error.splits list.splits if_splits option.splits)

theorem have_qemu_returns_captured_path_witness:
  "have_qemu host_registered ARM64 = ([], Inr (Some ''/usr/bin/qemu-aarch64-static''))"
proof -
  have 1: "qemu_bin ARM64 = Inr ''qemu-aarch64-static''"
    by (simp add: qemu_bin_def qemu_arch_simps)
  have 2: "binfmt_reg_name ARM64 = Inr arm64_reg"
    by (simp add: binfmt_reg_name_def qemu_arch_simps)
  have 3: "open_read host_registered arm64_reg
           = Inr (file_text [''enabled'', ''interpreter /usr/bin/qemu-aarch64-static'', ''flags: F''])"
    by (simp add: host_registered_def example_host_def)
  have 4: "readlines (file_text [''enabled'', ''interpreter /usr/bin/qemu-aarch64-static'', ''flags: F''])
           = (''enabled'' @ [NL]) # (''interpreter /usr/bin/qemu-aarch64-static'' @ [NL]) # [''flags: F'' @ [NL]]"
    by (simp add: file_text_def)
  have 5: "strip (''enabled'' @ [NL]) = ''enabled''"
    by (simp add: strip_def isspace_def)
  have 6: "match_interp ''qemu-aarch64-static'' (''interpreter /usr/bin/qemu-aarch64-static'' @ [NL])
           = Some ''/usr/bin/qemu-aarch64-static''"
    by (simp add: match_interp_def)
  have 7: "resolve host_registered (PosixPath ''/usr/bin/qemu-aarch64-static'')
           = Inr (Path ''/'' [''usr'', ''bin'', ''qemu-aarch64-static''])"
    by (simp add: host_registered_def example_host_def PosixPath_def splitroot_def path_str_def)
  have 8: "path_name (Path ''/'' [''usr'', ''bin'', ''qemu-aarch64-static'']) = ''qemu-aarch64-static''"
    by (simp add: path_name_def)
  show ?thesis
    by (rule have_qemu_returns_captured_path[OF 1 2 3 4 5 6 7 8])
qed

text \<open>
  The registered interpreter \<open>/usr/local/bin/qemu-aarch64-static\<close> is a symbolic link to
  \<open>/usr/bin/qemu-aarch64-static\<close>: the check succeeds and returns the link, not the path the
  link resolves to.
\<close>

theorem have_qemu_resolved_counterexample:
  "snd (have_qemu host_symlink ARM64) = Inr (Some ''/usr/local/bin/qemu-aarch64-static'')
   \<and> resolve host_symlink (PosixPath ''/usr/local/bin/qemu-aarch64-static'')
       = Inr (PosixPath ''/usr/bin/qemu-aarch64-static'')
   \<and> path_str (PosixPath ''/usr/bin/qemu-aarch64-static'') = ''/usr/bin/qemu-aarch64-static''
   \<and> ''/usr/local/bin/qemu-aarch64-static'' \<noteq> ''/usr/bin/qemu-aarch64-static''"
  by (simp add: have_qemu_def qemu_bin_def binfmt_reg_name_def qemu_arch_simps
      host_symlink_def example_host_def file_text_def check_registration_def strip_def
      isspace_def match_interp_def PosixPath_def splitroot_def path_str_def path_name_def)

text \<open>Facts about the examples.\<close>

lemma arm64_names:
  "qemu_bin ARM64 = Inr ''qemu-aarch64-static''"
  "binfmt_reg_name ARM64 = Inr arm64_reg"
  by (simp_all add: qemu_bin_def binfmt_reg_name_def qemu_arch_simps)

lemma example_host_read:
  "open_read (example_host uid reg_name reg_lines symlinks) reg_name = Inr (file_text reg_lines)"
  by (simp add: example_host_def)

text \<open>
  C2. The check does not return for every content that can be read: on a registration file
  of no line, and on one whose only line is \<open>enabled\<close>, indexing the list of lines raises
  \<open>IndexError\<close>, which nothing in \<open>have_qemu\<close> catches.
\<close>

theorem have_qemu_short_file_raises:
  "open_read host_empty_file arm64_reg = Inr []
   \<and> have_qemu host_empty_file ARM64 = ([], Inl IndexError)
   \<and> open_read host_one_line arm64_reg = Inr (''enabled'' @ [NL])
   \<and> have_qemu host_one_line ARM64 = ([], Inl IndexError)"
  by (simp add: have_qemu_def arm64_names host_empty_file_def host_one_line_def
      example_host_def file_text_def check_registration_def strip_def isspace_def)

text \<open>The same for every architecture and host: these are the files that are too short.\<close>

lemma have_qemu_IndexError:
  assumes "binfmt_reg_name self = Inr reg_name" "open_read h reg_name = Inr body"
    and "readlines body = [] \<or> (\<exists>l. readlines body = [l] \<and> strip l = ''enabled'')"
  shows "have_qemu h self = ([], Inl IndexError)"
proof -
  obtain base_name where "qemu_bin self = Inr base_name"
    using qemu_bin_returns by blast
  from have_qemu_read[OF this assms(1,2)] assms(3) show ?thesis
    by (auto simp: check_registration_def)
qed

text \<open>
  A file of two lines or more is never too short: unless resolving the path raises, the check
  returns.
\<close>

lemma have_qemu_returns_on_two_lines:
  assumes "binfmt_reg_name self = Inr reg_name" "open_read h reg_name = Inr body"
    and "readlines body = line0 # line1 # rest"
    and "\<And>p. \<exists>r. resolve h p = Inr r"
  shows "\<exists>v. snd (have_qemu h self) = Inr v"
proof -
  obtain base_name where "qemu_bin self = Inr base_name"
    using qemu_bin_returns by blast
  from have_qemu_read[OF this assms(1,2)] assms(3) show ?thesis
    using assms(4)[of "PosixPath (the (match_interp base_name line1))"]
    by (auto simp: check_registration_def split: option.splits)
qed

text \<open>
  C3, as amended. If the registration file is read and its first line, with leading and
  trailing whitespace removed, is not \<open>enabled\<close>, the check returns \<open>None\<close>.
\<close>

theorem have_qemu_not_enabled:
  assumes "binfmt_reg_name self = Inr reg_name" "open_read h reg_name = Inr body"
    and "readlines body = line0 # rest"
    and "strip line0 \<noteq> ''enabled''"
  shows "snd (have_qemu h self) = Inr None"
proof -
  obtain base_name where "qemu_bin self = Inr base_name"
    using qemu_bin_returns by blast
  from have_qemu_read[OF this assms(1,2)] assms(3,4) show ?thesis
    by (simp add: check_registration_def)
qed

theorem have_qemu_not_enabled_witness:
  "strip (''disabled'' @ [NL]) \<noteq> ''enabled'' \<and> snd (have_qemu host_disabled ARM64) = Inr None"
proof -
  have 1: "open_read host_disabled arm64_reg
           = Inr (file_text [''disabled'', ''interpreter /usr/bin/qemu-aarch64-static'', ''flags: F''])"
    unfolding host_disabled_def by (rule example_host_read)
  have 2: "readlines (file_text [''disabled'', ''interpreter /usr/bin/qemu-aarch64-static'', ''flags: F''])
           = (''disabled'' @ [NL])
             # [''interpreter /usr/bin/qemu-aarch64-static'' @ [NL], ''flags: F'' @ [NL]]"
    by (simp add: file_text_def)
  have 3: "strip (''disabled'' @ [NL]) \<noteq> ''enabled''"
    by (simp add: strip_def isspace_def)
  from 3 have_qemu_not_enabled[OF arm64_names(2) 1 2 3] show ?thesis by (rule conjI)
qed

text \<open>
  A first line that is not exactly \<open>enabled\<close>, because a blank precedes the word, passes the
  test of the first line, and the check goes on to return the interpreter.
\<close>

theorem have_qemu_first_line_counterexample:
  "open_read host_padded arm64_reg
     = Inr (file_text ['' enabled'', ''interpreter /usr/bin/qemu-aarch64-static'', ''flags: F''])
   \<and> hd (readlines (file_text ['' enabled'', ''interpreter /usr/bin/qemu-aarch64-static'', ''flags: F'']))
     = '' enabled'' @ [NL]
   \<and> '' enabled'' @ [NL] \<noteq> ''enabled'' \<and> '' enabled'' \<noteq> ''enabled''
   \<and> snd (have_qemu host_padded ARM64) = Inr (Some ''/usr/bin/qemu-aarch64-static'')"
  by (simp add: have_qemu_def arm64_names host_padded_def example_host_def file_text_def
      check_registration_def strip_def isspace_def match_interp_def PosixPath_def splitroot_def
      path_str_def path_name_def)




section \<open>Running commands\<close>

lemma host_probe_simps:
  "geteuid (host_probe uid) = uid"
  "run (host_probe uid) = probe_child"
  by (simp_all add: host_probe_def example_host_def)

text \<open>
  C5. With an effective user id other than 0, \<open>privileged_call\<close> first logs the whole command,
  \<open>sudo\<close> followed by the caller's arguments, and then applies the launcher to that same list:
  what it returns is what the launcher returns for it. With the effective user id 0 it logs
  nothing and applies the launcher to the caller's arguments unchanged. This holds for every
  host, every argument list and both values of \<open>interactive\<close>.
\<close>

theorem privileged_call_escalation:
  "(geteuid h \<noteq> 0 \<longrightarrow>
      fst (privileged_call h argv interactive)
        = [Info [Lit ''!!! About to run '', FmtList (''sudo'' # argv)],
           Launch (''sudo'' # argv) (\<not> interactive) True]
      \<and> snd (privileged_call h argv interactive)
        = (case run h (''sudo'' # argv) (\<not> interactive) True of
             Inl e \<Rightarrow> Inl e
           | Inr result \<Rightarrow> Inr (stdout result, stderr result, returncode result)))
   \<and> (geteuid h = 0 \<longrightarrow>
      fst (privileged_call h argv interactive) = [Launch argv (\<not> interactive) True]
      \<and> snd (privileged_call h argv interactive)
        = (case run h argv (\<not> interactive) True of
             Inl e \<Rightarrow> Inl e
           | Inr result \<Rightarrow> Inr (stdout result, stderr result, returncode result)))"
  by (simp add: privileged_call_def Let_def)

theorem privileged_call_escalation_witness:
  "geteuid (host_probe 1000) \<noteq> 0
   \<and> privileged_call (host_probe 1000) [''mount'', ''/dev''] False
       = ([Info [Lit ''!!! About to run '', FmtList [''sudo'', ''mount'', ''/dev'']],
           Launch [''sudo'', ''mount'', ''/dev''] True True],
          Inr (Some ''sudomount/dev'', Some [], 3))
   \<and> privileged_call (host_probe 1000) [''mount'', ''/dev''] True
       = ([Info [Lit ''!!! About to run '', FmtList [''sudo'', ''mount'', ''/dev'']],
           Launch [''sudo'', ''mount'', ''/dev''] False True],
          Inr (None, None, 3))
   \<and> geteuid (host_probe 0) = 0
   \<and> privileged_call (host_probe 0) [''mount'', ''/dev''] False
       = ([Launch [''mount'', ''/dev''] True True], Inr (Some ''mount/dev'', Some [], 2))
   \<and> privileged_call (host_probe 0) [''mount'', ''/dev''] True
       = ([Launch [''mount'', ''/dev''] False True], Inr (None, None, 2))"
proof -
  have u: "geteuid (host_probe 1000) \<noteq> 0" and r: "geteuid (host_probe 0) = 0"
    by (simp_all add: host_probe_simps)
  from privileged_call_escalation[of "host_probe 1000" "[''mount'', ''/dev'']" False] u
  have 1: "privileged_call (host_probe 1000) [''mount'', ''/dev''] False
       = ([Info [Lit ''!!! About to run '', FmtList [''sudo'', ''mount'', ''/dev'']],
           Launch [''sudo'', ''mount'', ''/dev''] True True],
          Inr (Some ''sudomount/dev'', Some [], 3))"
    by (simp add: prod_eq_iff host_probe_simps probe_child_def)
  from privileged_call_escalation[of "host_probe 1000" "[''mount'', ''/dev'']" True] u
  have 2: "privileged_call (host_probe 1000) [''mount'', ''/dev''] True
       = ([Info [Lit ''!!! About to run '', FmtList [''sudo'', ''mount'', ''/dev'']],
           Launch [''sudo'', ''mount'', ''/dev''] False True],
          Inr (None, None, 3))"
    by (simp add: prod_eq_iff host_probe_simps probe_child_def)
  from privileged_call_escalation[of "host_probe 0" "[''mount'', ''/dev'']" False] r
  have 3: "privileged_call (host_probe 0) [''mount'', ''/dev''] False
       = ([Launch [''mount'', ''/dev''] True True], Inr (Some ''mount/dev'', Some [], 2))"
    by (simp add: prod_eq_iff host_probe_simps probe_child_def)
  from privileged_call_escalation[of "host_probe 0" "[''mount'', ''/dev'']" True] r
  have 4: "privileged_call (host_probe 0) [''mount'', ''/dev''] True
       = ([Launch [''mount'', ''/dev''] False True], Inr (None, None, 2))"
    by (simp add: prod_eq_iff host_probe_simps probe_child_def)
  from u 1 2 r 3 4 show ?thesis by (intro conjI)
qed

text \<open>
  C8. Called with \<open>interactive = False\<close>, both functions launch the command once, asking for
  captured output as text, and return the standard output, the standard error and the exit
  status of the completed process as the launcher reports them, whatever the status is.
\<close>

theorem calls_return_child_result:
  "(run h argv True True = Inr result \<longrightarrow>
      regular_call h argv False
        = ([Launch argv True True], Inr (stdout result, stderr result, returncode result)))
   \<and> (run h ((if geteuid h \<noteq> 0 then [''sudo''] else []) @ argv) True True = Inr result \<longrightarrow>
      snd (privileged_call h argv False) = Inr (stdout result, stderr result, returncode result)
      \<and> filter is_launch (fst (privileged_call h argv False))
          = [Launch ((if geteuid h \<noteq> 0 then [''sudo''] else []) @ argv) True True])"
  by (simp add: regular_call_def privileged_call_def Let_def)

theorem calls_return_child_result_witness:
  "run host_registered [''false''] True True
     = Inr \<lparr> stdout = Some ''out'', stderr = Some ''err'', returncode = 2 \<rparr>
   \<and> regular_call host_registered [''false''] False
     = ([Launch [''false''] True True], Inr (Some ''out'', Some ''err'', 2))
   \<and> run host_registered [''sudo'', ''false''] True True
     = Inr \<lparr> stdout = Some ''out'', stderr = Some ''err'', returncode = 2 \<rparr>
   \<and> snd (privileged_call host_registered [''false''] False) = Inr (Some ''out'', Some ''err'', 2)
   \<and> filter is_launch (fst (privileged_call host_registered [''false''] False))
     = [Launch [''sudo'', ''false''] True True]"
proof -
  have 0: "geteuid host_registered \<noteq> 0"
    by (simp add: host_registered_def example_host_def)
  have 1: "run host_registered [''false''] True True
     = Inr \<lparr> stdout = Some ''out'', stderr = Some ''err'', returncode = 2 \<rparr>"
    by (simp add: host_registered_def example_host_def example_child_def)
  have 2: "run host_registered [''sudo'', ''false''] True True
     = Inr \<lparr> stdout = Some ''out'', stderr = Some ''err'', returncode = 2 \<rparr>"
    by (simp add: host_registered_def example_host_def example_child_def)
  note t = calls_return_child_result[of host_registered "[''false'']"
      "\<lparr> stdout = Some ''out'', stderr = Some ''err'', returncode = 2 \<rparr>"]
  from t 1 have 3: "regular_call host_registered [''false''] False
     = ([Launch [''false''] True True], Inr (Some ''out'', Some ''err'', 2))"
    by simp
  from t 0 2 have 4: "snd (privileged_call host_registered [''false''] False) = Inr (Some ''out'', Some ''err'', 2)
   \<and> filter is_launch (fst (privileged_call host_registered [''false''] False))
     = [Launch [''sudo'', ''false''] True True]"
    by simp
  from 1 3 2 4 show ?thesis by simp
qed

section \<open>Detection of the host architecture\<close>

text \<open>
  C6. \<open>match_current_arch\<close> returns no match for every machine string outside the five strings
  \<open>x86_64\<close>, \<open>aarch64\<close>, \<open>riscv64\<close>, \<open>ppc\<close> and \<open>ppc64le\<close>, for \<open>mips64\<close> in particular
  and for the name of every retro architecture, none of which is ever returned; on the five
  strings it returns \<open>AMD64\<close>, \<open>ARM64\<close>, \<open>RISCV64\<close>, \<open>POWERPC\<close> and \<open>PPC64EL\<close>.
\<close>

theorem match_current_arch_table:
  "(machine \<notin> {''x86_64'', ''aarch64'', ''riscv64'', ''ppc'', ''ppc64le''} \<longrightarrow>
      match_current_arch machine = None)
   \<and> match_current_arch ''mips64'' = None
   \<and> (\<forall>a \<in> set retro_arches.
        match_current_arch (arch_value a) = None \<and> match_current_arch machine \<noteq> Some a)
   \<and> match_current_arch ''x86_64'' = Some AMD64
   \<and> match_current_arch ''aarch64'' = Some ARM64
   \<and> match_current_arch ''riscv64'' = Some RISCV64
   \<and> match_current_arch ''ppc'' = Some POWERPC
   \<and> match_current_arch ''ppc64le'' = Some PPC64EL"
  by (simp add: match_current_arch_def retro_arches_def)

theorem match_current_arch_table_witness:
  "''armv7l'' \<notin> {''x86_64'', ''aarch64'', ''riscv64'', ''ppc'', ''ppc64le''}
   \<and> match_current_arch ''armv7l'' = None
   \<and> M68K \<in> set retro_arches
   \<and> match_current_arch (arch_value M68K) = None
   \<and> match_current_arch ''armv7l'' \<noteq> Some M68K"
proof -
  have 1: "''armv7l'' \<notin> {''x86_64'', ''aarch64'', ''riscv64'', ''ppc'', ''ppc64le''}" by simp
  have 2: "M68K \<in> set retro_arches" by (simp add: retro_arches_def)
  note t = match_current_arch_table[of "''armv7l''"]
  from t 1 have 3: "match_current_arch ''armv7l'' = None" by blast
  from t 2 have 4: "match_current_arch (arch_value M68K) = None \<and> match_current_arch ''armv7l'' \<noteq> Some M68K"
    by blast
  from 1 3 2 4 show ?thesis by blast
qed

section \<open>Derived names\<close>

text \<open>
  C9. For every architecture \<open>qemu_bin\<close> is \<open>qemu-\<close>, the string \<open>qemu_arch\<close> returns, and
  \<open>-static\<close>; \<open>standard_sysroot\<close> is the path \<open>/var/ab/cross-root/\<close> followed by the value of
  the member, which for \<open>AMD64\<close> reads \<open>/var/ab/cross-root/amd64\<close>.
\<close>

theorem derived_names:
  "(\<exists>q. qemu_arch self = Inr q \<and> qemu_bin self = Inr (''qemu-'' @ q @ ''-static''))
   \<and> standard_sysroot self = PosixPath (''/var/ab/cross-root/'' @ arch_value self)
   \<and> path_str (standard_sysroot self) = ''/var/ab/cross-root/'' @ arch_value self
   \<and> path_str (standard_sysroot AMD64) = ''/var/ab/cross-root/amd64''
   \<and> standard_sysroot self = Path ''/'' [''var'', ''ab'', ''cross-root'', arch_value self]"
  by (cases self)
    (simp_all add: qemu_bin_def qemu_arch_simps standard_sysroot_def PosixPath_def splitroot_def
      path_str_def)

text \<open>The architecture enters the check after the read only through the log records.\<close>

lemma snd_check_registration:
  "snd (check_registration h self base_name ls) = snd (check_registration h self' base_name ls)"
  by (simp add: check_registration_def split: list.splits option.splits sum.splits)

text \<open>
  C10. The two distinct members \<open>LOONGSON3\<close> and \<open>MIPS64R6EL\<close> have the same \<open>qemu_arch\<close>,
  \<open>mips64el\<close>, hence the same \<open>qemu_bin\<close> and the same registration file
  \<open>/proc/sys/fs/binfmt_misc/qemu-mips64el\<close>; on every host the availability check returns
  the same value for both.
\<close>

theorem mips64el_variants_coincide:
  "LOONGSON3 \<noteq> MIPS64R6EL
   \<and> qemu_arch LOONGSON3 = Inr ''mips64el'' \<and> qemu_arch MIPS64R6EL = Inr ''mips64el''
   \<and> qemu_bin LOONGSON3 = Inr ''qemu-mips64el-static''
   \<and> qemu_bin MIPS64R6EL = Inr ''qemu-mips64el-static''
   \<and> binfmt_reg_name LOONGSON3 = Inr ''/proc/sys/fs/binfmt_misc/qemu-mips64el''
   \<and> binfmt_reg_name MIPS64R6EL = Inr ''/proc/sys/fs/binfmt_misc/qemu-mips64el''
   \<and> snd (have_qemu h LOONGSON3) = snd (have_qemu h MIPS64R6EL)"
proof -
  have "snd (have_qemu h LOONGSON3) = snd (have_qemu h MIPS64R6EL)"
    using snd_check_registration[of h LOONGSON3 _ _ MIPS64R6EL]
    by (simp add: have_qemu_def qemu_bin_def binfmt_reg_name_def qemu_arch_simps
        split: sum.splits py_error.splits)
  then show ?thesis
    by (simp add: qemu_bin_def binfmt_reg_name_def qemu_arch_simps)
qed

text \<open>
  The file names consist of lower-case letters, digits and \<open>-\<close>: inside the pattern of the
  interpreter line they match themselves.
\<close>

lemma qemu_bin_literal:
  "qemu_bin self = Inr b \<Longrightarrow> set b \<subseteq> set ''abcdefghijklmnopqrstuvwxyz0123456789-''"
  by (cases self) (auto simp: qemu_bin_def qemu_arch_simps)


end
